theory Spec2Isabelle
  imports Complex_Main "HOL-Library.Word"
begin

section \<open>Data model of \<open>SceneManager\<close>\<close>

text \<open>
  The embedding follows \<^verbatim>\<open>Source/SceneManager.cpp\<close>. The class declaration
  (\<^verbatim>\<open>SceneManager.h\<close>), the shader manager, GLM, stb\_image and OpenGL are not part
  of the translated file. The object is a record of the members the methods touch;
  the collaborators are recorded by the calls they receive:
  \<^item> \<open>uniforms\<close> is the sequence of setter calls the \<^verbatim>\<open>ShaderManager\<close> object has
    received, oldest first;
  \<^item> \<open>calls\<close> is the sequence of stb\_image, OpenGL and console calls issued.
  Values a collaborator hands back (the decoded image, the texture name written by
  \<^verbatim>\<open>glGenTextures\<close>) are inputs of the model.
\<close>

type_synonym GLuint = "32 word"
type_synonym vec2 = "real \<times> real"
type_synonym vec3 = "real \<times> real \<times> real"
type_synonym vec4 = "real \<times> real \<times> real \<times> real"

text \<open>A \<^verbatim>\<open>glm::mat4\<close> is column-major: four columns, each a \<^verbatim>\<open>vec4\<close>.\<close>

type_synonym mat4 = "vec4 \<times> vec4 \<times> vec4 \<times> vec4"

record TEXTURE_INFO =
  ID :: GLuint
  tag :: string

record OBJECT_MATERIAL =
  diffuseColor :: vec3
  specularColor :: vec3
  shininess :: real
  tag_material :: string

text \<open>What \<^verbatim>\<open>stbi_load\<close> writes through its out-parameters for a decoded file.\<close>

record stbi_image =
  width :: int
  height :: int
  colorChannels :: int

datatype message =
    Successfully_loaded_image string int int int
  | Not_implemented_to_handle_image_with_channels int
  | Could_not_load_image string

datatype texture_parameter = GL_TEXTURE_WRAP_S | GL_TEXTURE_WRAP_T
  | GL_TEXTURE_MIN_FILTER | GL_TEXTURE_MAG_FILTER

datatype texture_parameter_value = GL_REPEAT | GL_LINEAR

datatype pixel_format = GL_RGB8_GL_RGB | GL_RGBA8_GL_RGBA

datatype call =
    stbi_set_flip_vertically_on_load bool
  | stbi_image_free
  | cout message
  | glGenTextures GLuint
  | glDeleteTextures GLuint
  | glBindTexture GLuint
  | glActiveTexture int
  | glTexParameteri texture_parameter texture_parameter_value
  | glTexImage2D pixel_format int int
  | glGenerateMipmap

datatype shader_call =
    setIntValue string int
  | setBoolValue string bool
  | setFloatValue string real
  | setVec2Value string vec2
  | setVec3Value string vec3
  | setVec4Value string vec4
  | setMat4Value string mat4
  | setSampler2DValue string int

datatype ShaderManager_ptr = NULL | ShaderManager_object

record SceneManager =
  m_pShaderManager :: ShaderManager_ptr
  m_textureIDs :: "TEXTURE_INFO list"
  m_loadedTextures :: int
  m_objectMaterials :: "OBJECT_MATERIAL list"
  uniforms :: "shader_call list"
  calls :: "call list"

text \<open>
  Modelled from the spec: the declared length of the array \<^verbatim>\<open>m_textureIDs\<close>
  (\<^verbatim>\<open>SceneManager.h\<close> is not among the sources; the spec gives \<open>MAX_SLOTS = 16\<close>, and
  the comment of \<^verbatim>\<open>BindGLTextures\<close> says "There are up to 16 slots").
\<close>

definition MAX_SLOTS :: nat where
  "MAX_SLOTS = 16"

text \<open>
  Behaviour the C++ standard leaves undefined is a result of its own: an access to
  \<^verbatim>\<open>m_textureIDs\<close> outside the array, and a call through a null
  \<^verbatim>\<open>m_pShaderManager\<close>.
\<close>

datatype fault = ArrayOutOfBounds | NullPointerDereference

definition g_ModelName :: string where "g_ModelName = ''model''"
definition g_ColorValueName :: string where "g_ColorValueName = ''objectColor''"
definition g_TextureValueName :: string where "g_TextureValueName = ''objectTexture''"
definition g_UseTextureName :: string where "g_UseTextureName = ''bUseTexture''"
definition g_UseLightingName :: string where "g_UseLightingName = ''bUseLighting''"

definition issue :: "call list \<Rightarrow> SceneManager \<Rightarrow> SceneManager" where
  "issue cs s = s\<lparr>calls := calls s @ cs\<rparr>"

definition push :: "shader_call list \<Rightarrow> SceneManager \<Rightarrow> SceneManager" where
  "push us s = s\<lparr>uniforms := uniforms s @ us\<rparr>"

definition in_bounds :: "SceneManager \<Rightarrow> int \<Rightarrow> bool" where
  "in_bounds s index \<longleftrightarrow> 0 \<le> index \<and> index < int (length (m_textureIDs s))"

section \<open>Texture registry\<close>

text \<open>
  The tail of \<^verbatim>\<open>CreateGLTexture\<close> after the pixel upload (lines 122-134): mipmaps,
  release of the image, unbinding, then the write to
  \<^verbatim>\<open>m_textureIDs[m_loadedTextures]\<close> and the increment. The source has no test of
  \<^verbatim>\<open>m_loadedTextures\<close> against the array length.
\<close>

definition register_texture ::
  "GLuint \<Rightarrow> string \<Rightarrow> SceneManager \<Rightarrow> fault + bool \<times> SceneManager" where
  "register_texture textureID tag' s =
     (let s1 = issue [glGenerateMipmap, stbi_image_free, glBindTexture 0] s;
          n = m_loadedTextures s1
      in if in_bounds s1 n
         then Inr (True,
                s1\<lparr>m_textureIDs := (m_textureIDs s1)[nat n := \<lparr>ID = textureID, tag = tag'\<rparr>],
                   m_loadedTextures := n + 1\<rparr>)
         else Inl ArrayOutOfBounds)"

text \<open>
  \<^verbatim>\<open>CreateGLTexture(filename, tag)\<close>. \<open>stbi_load\<close> is the decoder (\<open>None\<close> for a
  null image pointer) and \<open>generated\<close> the name \<^verbatim>\<open>glGenTextures\<close> writes to
  \<^verbatim>\<open>textureID\<close> in this call.
\<close>

definition CreateGLTexture ::
  "(string \<Rightarrow> stbi_image option) \<Rightarrow> GLuint \<Rightarrow> string \<Rightarrow> string \<Rightarrow> SceneManager
     \<Rightarrow> fault + bool \<times> SceneManager" where
  "CreateGLTexture stbi_load generated filename tag' s =
     (let s0 = issue [stbi_set_flip_vertically_on_load True] s
      in case stbi_load filename of
           Some img \<Rightarrow>
             (let textureID = generated;
                  s1 = issue
                    [cout (Successfully_loaded_image filename (width img) (height img)
                             (colorChannels img)),
                     glGenTextures textureID,
                     glBindTexture textureID,
                     glTexParameteri GL_TEXTURE_WRAP_S GL_REPEAT,
                     glTexParameteri GL_TEXTURE_WRAP_T GL_REPEAT,
                     glTexParameteri GL_TEXTURE_MIN_FILTER GL_LINEAR,
                     glTexParameteri GL_TEXTURE_MAG_FILTER GL_LINEAR] s0
              in if colorChannels img = 3 then
                   register_texture textureID tag'
                     (issue [glTexImage2D GL_RGB8_GL_RGB (width img) (height img)] s1)
                 else if colorChannels img = 4 then
                   register_texture textureID tag'
                     (issue [glTexImage2D GL_RGBA8_GL_RGBA (width img) (height img)] s1)
                 else
                   Inr (False,
                     issue [cout (Not_implemented_to_handle_image_with_channels
                                    (colorChannels img))] s1))
         | None \<Rightarrow> Inr (False, issue [cout (Could_not_load_image filename)] s0))"

text \<open>
  \<^verbatim>\<open>DestroyGLTextures\<close>: the loop body is \<^verbatim>\<open>glGenTextures(1, &m_textureIDs[i].ID)\<close>;
  \<open>generated i\<close> is the name the call of iteration \<open>i\<close> writes.
\<close>

function DestroyGLTextures_loop ::
  "(int \<Rightarrow> GLuint) \<Rightarrow> int \<Rightarrow> SceneManager \<Rightarrow> fault + SceneManager" where
  "DestroyGLTextures_loop generated i s =
     (if i < m_loadedTextures s then
        (if in_bounds s i then
           DestroyGLTextures_loop generated (i + 1)
             (s\<lparr>m_textureIDs :=
                  (m_textureIDs s)[nat i := (m_textureIDs s ! nat i)\<lparr>ID := generated i\<rparr>],
                calls := calls s @ [glGenTextures (generated i)]\<rparr>)
         else Inl ArrayOutOfBounds)
      else Inr s)"
  by pat_completeness auto
termination
  by (relation "measure (\<lambda>(generated, i, s). nat (m_loadedTextures s - i))") auto

declare DestroyGLTextures_loop.simps [simp del]

definition DestroyGLTextures :: "(int \<Rightarrow> GLuint) \<Rightarrow> SceneManager \<Rightarrow> fault + SceneManager" where
  "DestroyGLTextures generated s = DestroyGLTextures_loop generated 0 s"

text \<open>
  \<^verbatim>\<open>FindTextureID\<close> and \<^verbatim>\<open>FindTextureSlot\<close>: the \<^verbatim>\<open>while\<close> loop with its three
  variables. The result of \<^verbatim>\<open>FindTextureID\<close> is the \<^verbatim>\<open>GLuint\<close> converted to
  \<^verbatim>\<open>int\<close>.
\<close>

function FindTextureID_loop ::
  "SceneManager \<Rightarrow> string \<Rightarrow> int \<Rightarrow> int \<Rightarrow> bool \<Rightarrow> fault + int" where
  "FindTextureID_loop s tag' textureID index bFound =
     (if index < m_loadedTextures s \<and> bFound = False then
        (if in_bounds s index then
           (if tag (m_textureIDs s ! nat index) = tag' then
              FindTextureID_loop s tag' (sint (ID (m_textureIDs s ! nat index))) index True
            else FindTextureID_loop s tag' textureID (index + 1) bFound)
         else Inl ArrayOutOfBounds)
      else Inr textureID)"
  by pat_completeness auto
termination
  by (relation "measure (\<lambda>(s, tag', textureID, index, bFound).
        2 * nat (m_loadedTextures s - index) + (if bFound then 0 else 1))") auto

declare FindTextureID_loop.simps [simp del]

definition FindTextureID :: "SceneManager \<Rightarrow> string \<Rightarrow> fault + int" where
  "FindTextureID s tag' = FindTextureID_loop s tag' (- 1) 0 False"

function FindTextureSlot_loop ::
  "SceneManager \<Rightarrow> string \<Rightarrow> int \<Rightarrow> int \<Rightarrow> bool \<Rightarrow> fault + int" where
  "FindTextureSlot_loop s tag' textureSlot index bFound =
     (if index < m_loadedTextures s \<and> bFound = False then
        (if in_bounds s index then
           (if tag (m_textureIDs s ! nat index) = tag' then
              FindTextureSlot_loop s tag' index index True
            else FindTextureSlot_loop s tag' textureSlot (index + 1) bFound)
         else Inl ArrayOutOfBounds)
      else Inr textureSlot)"
  by pat_completeness auto
termination
  by (relation "measure (\<lambda>(s, tag', textureSlot, index, bFound).
        2 * nat (m_loadedTextures s - index) + (if bFound then 0 else 1))") auto

declare FindTextureSlot_loop.simps [simp del]

definition FindTextureSlot :: "SceneManager \<Rightarrow> string \<Rightarrow> fault + int" where
  "FindTextureSlot s tag' = FindTextureSlot_loop s tag' (- 1) 0 False"

text \<open>The tags of the live entries, in slot order.\<close>

definition loaded_tags :: "SceneManager \<Rightarrow> string list" where
  "loaded_tags s = map tag (take (nat (m_loadedTextures s)) (m_textureIDs s))"

text \<open>
  A sequence of \<^verbatim>\<open>CreateGLTexture\<close> calls, as \<^verbatim>\<open>LoadSceneTextures\<close> issues them:
  each request is the name \<^verbatim>\<open>glGenTextures\<close> would write, the file name and the tag.
  The returned flags are collected in call order.
\<close>

fun CreateGLTextures ::
  "(string \<Rightarrow> stbi_image option) \<Rightarrow> (GLuint \<times> string \<times> string) list \<Rightarrow> SceneManager
     \<Rightarrow> fault + bool list \<times> SceneManager" where
  "CreateGLTextures stbi_load [] s = Inr ([], s)"
| "CreateGLTextures stbi_load ((generated, filename, tag') # reqs) s =
     (case CreateGLTexture stbi_load generated filename tag' s of
        Inl f \<Rightarrow> Inl f
      | Inr (bReturn, s') \<Rightarrow>
          (case CreateGLTextures stbi_load reqs s' of
             Inl f \<Rightarrow> Inl f
           | Inr (bs, s'') \<Rightarrow> Inr (bReturn # bs, s'')))"

text \<open>
  The registrations the spec counts as successful: the file decodes to 3 or 4
  channels. \<open>registrations\<close> lists their (handle, tag) pairs in call order.
\<close>

definition supported :: "(string \<Rightarrow> stbi_image option) \<Rightarrow> string \<Rightarrow> bool" where
  "supported stbi_load filename =
     (case stbi_load filename of
        None \<Rightarrow> False
      | Some img \<Rightarrow> colorChannels img = 3 \<or> colorChannels img = 4)"

definition registrations ::
  "(string \<Rightarrow> stbi_image option) \<Rightarrow> (GLuint \<times> string \<times> string) list
     \<Rightarrow> (GLuint \<times> string) list" where
  "registrations stbi_load reqs =
     map (\<lambda>(generated, filename, tag'). (generated, tag'))
       (filter (\<lambda>(generated, filename, tag'). supported stbi_load filename) reqs)"

section \<open>Material registry\<close>

text \<open>
  \<^verbatim>\<open>FindMaterial(tag, material)\<close>: \<open>material\<close> is the caller's object, passed by
  reference; the result is the returned flag and the object afterwards. The loop
  keeps \<^verbatim>\<open>bFound\<close>; the function ends with \<^verbatim>\<open>return(true)\<close>.
\<close>

function FindMaterial_loop ::
  "SceneManager \<Rightarrow> string \<Rightarrow> OBJECT_MATERIAL \<Rightarrow> int \<Rightarrow> bool \<Rightarrow> bool \<times> OBJECT_MATERIAL" where
  "FindMaterial_loop s tag' material index bFound =
     (if index < int (length (m_objectMaterials s)) \<and> bFound = False then
        (if tag_material (m_objectMaterials s ! nat index) = tag' then
           FindMaterial_loop s tag'
             (material\<lparr>diffuseColor := diffuseColor (m_objectMaterials s ! nat index),
                       specularColor := specularColor (m_objectMaterials s ! nat index),
                       shininess := shininess (m_objectMaterials s ! nat index)\<rparr>)
             index True
         else FindMaterial_loop s tag' material (index + 1) bFound)
      else (bFound, material))"
  by pat_completeness auto
termination
  by (relation "measure (\<lambda>(s, tag', material, index, bFound).
        2 * nat (int (length (m_objectMaterials s)) - index) + (if bFound then 0 else 1))") auto

declare FindMaterial_loop.simps [simp del]

definition FindMaterial ::
  "SceneManager \<Rightarrow> string \<Rightarrow> OBJECT_MATERIAL \<Rightarrow> bool \<times> OBJECT_MATERIAL" where
  "FindMaterial s tag' material =
     (if length (m_objectMaterials s) = 0 then (False, material)
      else (let (bFound, material') = FindMaterial_loop s tag' material 0 False
            in (True, material')))"

section \<open>Shader state\<close>

text \<open>
  GLM is a third-party library. Its functions are given here as the library defines
  them (\<^verbatim>\<open>glm/ext/matrix_transform.inl\<close>, \<^verbatim>\<open>glm/gtx/transform.inl\<close>,
  \<^verbatim>\<open>glm/detail/type_mat4x4.inl\<close>), with \<^verbatim>\<open>float\<close> read as a real number:
  \<^verbatim>\<open>cos\<close> and \<^verbatim>\<open>sin\<close> on \<^verbatim>\<open>float\<close> have no bit-exact specification, so the
  matrices are those of exact arithmetic and rounding is outside this part of the model.
\<close>

definition vec4_times :: "vec4 \<Rightarrow> real \<Rightarrow> vec4" where
  "vec4_times v k = (case v of (x, y, z, w) \<Rightarrow> (x * k, y * k, z * k, w * k))"

definition vec4_plus :: "vec4 \<Rightarrow> vec4 \<Rightarrow> vec4" where
  "vec4_plus u v =
     (case u of (x, y, z, w) \<Rightarrow> case v of (x', y', z', w') \<Rightarrow> (x + x', y + y', z + z', w + w'))"

definition mat4_identity :: mat4 where
  "mat4_identity = ((1, 0, 0, 0), (0, 1, 0, 0), (0, 0, 1, 0), (0, 0, 0, 1))"

text \<open>\<^verbatim>\<open>operator*(mat4, mat4)\<close>: column \<open>j\<close> of the product is
  \<^verbatim>\<open>A[0]*B[j][0] + A[1]*B[j][1] + A[2]*B[j][2] + A[3]*B[j][3]\<close>.\<close>

definition mat4_column :: "mat4 \<Rightarrow> vec4 \<Rightarrow> vec4" where
  "mat4_column A b =
     (case A of (a0, a1, a2, a3) \<Rightarrow> case b of (x, y, z, w) \<Rightarrow>
        vec4_plus (vec4_plus (vec4_plus (vec4_times a0 x) (vec4_times a1 y)) (vec4_times a2 z))
          (vec4_times a3 w))"

definition mat4_times :: "mat4 \<Rightarrow> mat4 \<Rightarrow> mat4" where
  "mat4_times A B =
     (case B of (b0, b1, b2, b3) \<Rightarrow>
        (mat4_column A b0, mat4_column A b1, mat4_column A b2, mat4_column A b3))"

definition radians :: "real \<Rightarrow> real" where
  "radians degrees = degrees * (pi / 180)"

definition glm_normalize :: "vec3 \<Rightarrow> vec3" where
  "glm_normalize v =
     (case v of (x, y, z) \<Rightarrow>
        (let k = 1 / sqrt (x * x + y * y + z * z) in (x * k, y * k, z * k)))"

definition glm_translate :: "mat4 \<Rightarrow> vec3 \<Rightarrow> mat4" where
  "glm_translate m v =
     (case m of (m0, m1, m2, m3) \<Rightarrow> case v of (x, y, z) \<Rightarrow>
        (m0, m1, m2,
         vec4_plus (vec4_plus (vec4_plus (vec4_times m0 x) (vec4_times m1 y)) (vec4_times m2 z))
           m3))"

definition glm_scale :: "mat4 \<Rightarrow> vec3 \<Rightarrow> mat4" where
  "glm_scale m v =
     (case m of (m0, m1, m2, m3) \<Rightarrow> case v of (x, y, z) \<Rightarrow>
        (vec4_times m0 x, vec4_times m1 y, vec4_times m2 z, m3))"

definition glm_rotate :: "mat4 \<Rightarrow> real \<Rightarrow> vec3 \<Rightarrow> mat4" where
  "glm_rotate m angle v =
     (case m of (m0, m1, m2, m3) \<Rightarrow>
      case glm_normalize v of (ax, ay, az) \<Rightarrow>
        (let c = cos angle; s = sin angle;
             tx = (1 - c) * ax; ty = (1 - c) * ay; tz = (1 - c) * az;
             r00 = c + tx * ax; r01 = tx * ay + s * az; r02 = tx * az - s * ay;
             r10 = ty * ax - s * az; r11 = c + ty * ay; r12 = ty * az + s * ax;
             r20 = tz * ax + s * ay; r21 = tz * ay - s * ax; r22 = c + tz * az
         in (vec4_plus (vec4_plus (vec4_times m0 r00) (vec4_times m1 r01)) (vec4_times m2 r02),
             vec4_plus (vec4_plus (vec4_times m0 r10) (vec4_times m1 r11)) (vec4_times m2 r12),
             vec4_plus (vec4_plus (vec4_times m0 r20) (vec4_times m1 r21)) (vec4_times m2 r22),
             m3)))"

text \<open>
  The body of \<^verbatim>\<open>SetTransformations\<close> up to the null test: the value of
  \<^verbatim>\<open>modelView\<close>. \<^verbatim>\<open>glm::scale(v)\<close>, \<^verbatim>\<open>glm::rotate(angle, v)\<close> and
  \<^verbatim>\<open>glm::translate(v)\<close> of \<^verbatim>\<open>gtx/transform\<close> apply the three-argument forms
  to the identity. The product associates to the left, as C++ parses it.
\<close>

definition modelView :: "vec3 \<Rightarrow> real \<Rightarrow> real \<Rightarrow> real \<Rightarrow> vec3 \<Rightarrow> mat4" where
  "modelView scaleXYZ XrotationDegrees YrotationDegrees ZrotationDegrees positionXYZ =
     (let scale = glm_scale mat4_identity scaleXYZ;
          rotationX = glm_rotate mat4_identity (radians XrotationDegrees) (1, 0, 0);
          rotationY = glm_rotate mat4_identity (radians YrotationDegrees) (0, 1, 0);
          rotationZ = glm_rotate mat4_identity (radians ZrotationDegrees) (0, 0, 1);
          translation = glm_translate mat4_identity positionXYZ
      in mat4_times (mat4_times (mat4_times (mat4_times translation rotationZ) rotationY)
           rotationX) scale)"

definition SetTransformations ::
  "vec3 \<Rightarrow> real \<Rightarrow> real \<Rightarrow> real \<Rightarrow> vec3 \<Rightarrow> SceneManager \<Rightarrow> SceneManager" where
  "SetTransformations scaleXYZ XrotationDegrees YrotationDegrees ZrotationDegrees positionXYZ s =
     (if m_pShaderManager s \<noteq> NULL then
        push [setMat4Value g_ModelName
                (modelView scaleXYZ XrotationDegrees YrotationDegrees ZrotationDegrees
                   positionXYZ)] s
      else s)"

text \<open>\<^verbatim>\<open>setIntValue(g_UseTextureName, false)\<close> passes the \<^verbatim>\<open>bool\<close> as the integer 0,
  \<^verbatim>\<open>true\<close> as 1.\<close>

definition SetShaderColor :: "real \<Rightarrow> real \<Rightarrow> real \<Rightarrow> real \<Rightarrow> SceneManager \<Rightarrow> SceneManager" where
  "SetShaderColor redColorValue greenColorValue blueColorValue alphaValue s =
     (let currentColor = (redColorValue, greenColorValue, blueColorValue, alphaValue)
      in if m_pShaderManager s \<noteq> NULL then
           push [setIntValue g_UseTextureName 0, setVec4Value g_ColorValueName currentColor] s
         else s)"

definition SetShaderTexture :: "string \<Rightarrow> SceneManager \<Rightarrow> fault + SceneManager" where
  "SetShaderTexture textureTag s =
     (if m_pShaderManager s \<noteq> NULL then
        (let s1 = push [setIntValue g_UseTextureName 1] s
         in case FindTextureSlot s1 textureTag of
              Inl f \<Rightarrow> Inl f
            | Inr textureID \<Rightarrow> Inr (push [setSampler2DValue g_TextureValueName textureID] s1))
      else Inr s)"

definition SetTextureUVScale :: "real \<Rightarrow> real \<Rightarrow> SceneManager \<Rightarrow> SceneManager" where
  "SetTextureUVScale u v s =
     (if m_pShaderManager s \<noteq> NULL then push [setVec2Value ''UVscale'' (u, v)] s else s)"

text \<open>
  \<^verbatim>\<open>SetShaderMaterial\<close>. The local \<^verbatim>\<open>OBJECT_MATERIAL material;\<close> is
  default-initialised: its colours and shininess hold whatever the stack held, given
  here as the argument \<open>indeterminate\<close>. The three setter calls go through
  \<^verbatim>\<open>m_pShaderManager\<close> without a null test.
\<close>

definition SetShaderMaterial ::
  "OBJECT_MATERIAL \<Rightarrow> string \<Rightarrow> SceneManager \<Rightarrow> fault + SceneManager" where
  "SetShaderMaterial indeterminate materialTag s =
     (if length (m_objectMaterials s) > 0 then
        (let (bReturn, material) = FindMaterial s materialTag indeterminate
         in if bReturn = True then
              (if m_pShaderManager s = NULL then Inl NullPointerDereference
               else Inr (push [setVec3Value ''material.diffuseColor'' (diffuseColor material),
                               setVec3Value ''material.specularColor'' (specularColor material),
                               setFloatValue ''material.shininess'' (shininess material)] s))
            else Inr s)
      else Inr s)"

text \<open>
  The shader sink keeps, for each uniform name, the value of the last setter call
  made under that name.
\<close>

fun uniform_name :: "shader_call \<Rightarrow> string" where
  "uniform_name (setIntValue n v) = n"
| "uniform_name (setBoolValue n v) = n"
| "uniform_name (setFloatValue n v) = n"
| "uniform_name (setVec2Value n v) = n"
| "uniform_name (setVec3Value n v) = n"
| "uniform_name (setVec4Value n v) = n"
| "uniform_name (setMat4Value n v) = n"
| "uniform_name (setSampler2DValue n v) = n"

definition current_uniform :: "string \<Rightarrow> SceneManager \<Rightarrow> shader_call option" where
  "current_uniform name s =
     (case filter (\<lambda>u. uniform_name u = name) (uniforms s) of
        [] \<Rightarrow> None
      | u # us \<Rightarrow> Some (last (u # us)))"

text \<open>A sequence of the two calls that choose between flat colour and texture.\<close>

datatype gateway_call = SetFlatColor real real real real | SetTexture string

fun is_SetTexture :: "gateway_call \<Rightarrow> bool" where
  "is_SetTexture (SetTexture t) = True"
| "is_SetTexture (SetFlatColor r g b a) = False"

fun gateway :: "gateway_call list \<Rightarrow> SceneManager \<Rightarrow> fault + SceneManager" where
  "gateway [] s = Inr s"
| "gateway (SetFlatColor r g b a # cs) s = gateway cs (SetShaderColor r g b a s)"
| "gateway (SetTexture t # cs) s =
     (case SetShaderTexture t s of Inl f \<Rightarrow> Inl f | Inr s' \<Rightarrow> gateway cs s')"

section \<open>Example states\<close>

text \<open>
  Concrete inputs on which the definitions are evaluated: a scene manager with a
  shader manager attached and no texture loaded, a decoder that knows three files,
  and a sequence of five load requests.
\<close>

definition example_scene :: SceneManager where
  "example_scene =
     \<lparr>m_pShaderManager = ShaderManager_object,
      m_textureIDs = replicate 16 \<lparr>ID = 0, tag = []\<rparr>,
      m_loadedTextures = 0,
      m_objectMaterials = [],
      uniforms = [],
      calls = []\<rparr>"

definition example_stbi_load :: "string \<Rightarrow> stbi_image option" where
  "example_stbi_load filename =
     (if filename = ''rgb.jpg'' then Some \<lparr>width = 4, height = 2, colorChannels = 3\<rparr>
      else if filename = ''rgba.png'' then Some \<lparr>width = 2, height = 2, colorChannels = 4\<rparr>
      else if filename = ''gray.png'' then Some \<lparr>width = 2, height = 2, colorChannels = 1\<rparr>
      else None)"

definition example_requests :: "(GLuint \<times> string \<times> string) list" where
  "example_requests =
     [(7, ''rgb.jpg'', ''desk''), (8, ''gray.png'', ''shade''), (9, ''absent.jpg'', ''floor''),
      (10, ''rgba.png'', ''lamp''), (11, ''rgb.jpg'', ''desk'')]"

definition example_material :: "string \<Rightarrow> real \<Rightarrow> OBJECT_MATERIAL" where
  "example_material tag' shine =
     \<lparr>diffuseColor = (4 / 5, 1 / 2, 1 / 5), specularColor = (1 / 2, 1 / 2, 1 / 2),
      shininess = shine, tag_material = tag'\<rparr>"

text \<open>Two textures loaded (names 7 and 10) and two materials defined.\<close>

definition example_loaded_scene :: SceneManager where
  "example_loaded_scene =
     \<lparr>m_pShaderManager = ShaderManager_object,
      m_textureIDs =
        [\<lparr>ID = 7, tag = ''desk''\<rparr>, \<lparr>ID = 10, tag = ''lamp''\<rparr>]
          @ replicate 14 \<lparr>ID = 0, tag = []\<rparr>,
      m_loadedTextures = 2,
      m_objectMaterials = [example_material ''desk'' 32, example_material ''lamp'' 64],
      uniforms = [],
      calls = []\<rparr>"

text \<open>What the stack happens to hold where \<^verbatim>\<open>SetShaderMaterial\<close> puts its local.\<close>

definition example_indeterminate :: OBJECT_MATERIAL where
  "example_indeterminate =
     \<lparr>diffuseColor = (- 7, 0, 12345), specularColor = (3, - 1, 0), shininess = - 2,
      tag_material = []\<rparr>"

text \<open>Sixteen requests for a supported file, with the names 1 to 16.\<close>

definition sixteen_requests :: "(GLuint \<times> string \<times> string) list" where
  "sixteen_requests = map (\<lambda>k. (of_nat (Suc k), ''rgb.jpg'', ''wood'')) [0..<16]"

section \<open>Unsupported channel layouts\<close>

text \<open>
  C6. When the file decodes but its channel count is neither 3 nor 4,
  \<^verbatim>\<open>CreateGLTexture\<close> returns \<open>false\<close> after printing the "Not implemented" message;
  the live count \<^verbatim>\<open>m_loadedTextures\<close> and the array \<^verbatim>\<open>m_textureIDs\<close> are as before
  (no entry is written), whatever the state of the registry.
\<close>

theorem CreateGLTexture_unsupported_channels:
  assumes "stbi_load filename = Some img"
    and "colorChannels img \<noteq> 3" and "colorChannels img \<noteq> 4"
  shows "\<exists>s'. CreateGLTexture stbi_load generated filename tag' s = Inr (False, s')
           \<and> m_loadedTextures s' = m_loadedTextures s
           \<and> m_textureIDs s' = m_textureIDs s
           \<and> m_objectMaterials s' = m_objectMaterials s
           \<and> uniforms s' = uniforms s
           \<and> last (calls s') =
               cout (Not_implemented_to_handle_image_with_channels (colorChannels img))"
  using assms by (simp add: CreateGLTexture_def issue_def Let_def)

theorem CreateGLTexture_unsupported_channels_witness:
  "example_stbi_load ''gray.png'' = Some \<lparr>width = 2, height = 2, colorChannels = 1\<rparr>
     \<and> colorChannels \<lparr>width = 2, height = 2, colorChannels = 1\<rparr> \<noteq> 3
     \<and> colorChannels \<lparr>width = 2, height = 2, colorChannels = 1\<rparr> \<noteq> 4
     \<and> (\<exists>s'. CreateGLTexture example_stbi_load 8 ''gray.png'' ''shade'' example_scene =
                 Inr (False, s')
           \<and> m_loadedTextures s' = 0
           \<and> m_textureIDs s' = replicate 16 \<lparr>ID = 0, tag = []\<rparr>
           \<and> last (calls s') = cout (Not_implemented_to_handle_image_with_channels 1))"
proof -
  have h1: "example_stbi_load ''gray.png'' = Some \<lparr>width = 2, height = 2, colorChannels = 1\<rparr>"
    by (simp add: example_stbi_load_def)
  have h2: "colorChannels \<lparr>width = 2, height = 2, colorChannels = 1\<rparr> \<noteq> 3" by simp
  have h3: "colorChannels \<lparr>width = 2, height = 2, colorChannels = 1\<rparr> \<noteq> 4" by simp
  from CreateGLTexture_unsupported_channels
    [of example_stbi_load "''gray.png''" "\<lparr>width = 2, height = 2, colorChannels = 1\<rparr>"
       8 "''shade''" example_scene] h1
  show ?thesis by (auto simp add: example_scene_def)
qed

section \<open>Registration order and lookup\<close>

lemma FindTextureSlot_loop_miss:
  assumes "m_loadedTextures s \<le> int (length (m_textureIDs s))" and "0 \<le> i"
    and "\<forall>j. i \<le> j \<and> j < m_loadedTextures s \<longrightarrow> tag (m_textureIDs s ! nat j) \<noteq> t"
  shows "FindTextureSlot_loop s t r i False = Inr r"
  using assms
proof (induction "nat (m_loadedTextures s - i)" arbitrary: i)
  case 0
  then show ?case by (simp add: FindTextureSlot_loop.simps)
next
  case (Suc d)
  then have lt: "i < m_loadedTextures s" by linarith
  with Suc.prems have ib: "in_bounds s i" by (simp add: in_bounds_def)
  from Suc.prems lt have ne: "tag (m_textureIDs s ! nat i) \<noteq> t" by simp
  have "FindTextureSlot_loop s t r (i + 1) False = Inr r"
    using Suc.hyps Suc.prems by (intro Suc.hyps(1)) auto
  with lt ib ne show ?case
    by (subst FindTextureSlot_loop.simps) simp
qed

lemma FindTextureSlot_loop_hit:
  assumes "k < m_loadedTextures s" and "m_loadedTextures s \<le> int (length (m_textureIDs s))"
    and "0 \<le> i" and "i \<le> k" and "tag (m_textureIDs s ! nat k) = t"
    and "\<forall>j. i \<le> j \<and> j < k \<longrightarrow> tag (m_textureIDs s ! nat j) \<noteq> t"
  shows "FindTextureSlot_loop s t r i False = Inr k"
  using assms
proof (induction "nat (k - i)" arbitrary: i r)
  case 0
  then have ik: "i = k" by simp
  with 0 have ib: "in_bounds s k" by (simp add: in_bounds_def)
  have "FindTextureSlot_loop s t k k True = Inr k"
    by (subst FindTextureSlot_loop.simps) simp
  with 0 ik ib show ?case
    by (subst FindTextureSlot_loop.simps) simp
next
  case (Suc d)
  then have lt: "i < k" by linarith
  with Suc.prems have ib: "in_bounds s i" by (simp add: in_bounds_def)
  from Suc.prems lt have ne: "tag (m_textureIDs s ! nat i) \<noteq> t" by simp
  have "FindTextureSlot_loop s t r (i + 1) False = Inr k"
    using Suc.hyps Suc.prems lt by (intro Suc.hyps(1)) auto
  with lt ib ne Suc.prems show ?case
    by (subst FindTextureSlot_loop.simps) simp
qed

lemma FindTextureID_loop_miss:
  assumes "m_loadedTextures s \<le> int (length (m_textureIDs s))" and "0 \<le> i"
    and "\<forall>j. i \<le> j \<and> j < m_loadedTextures s \<longrightarrow> tag (m_textureIDs s ! nat j) \<noteq> t"
  shows "FindTextureID_loop s t r i False = Inr r"
  using assms
proof (induction "nat (m_loadedTextures s - i)" arbitrary: i)
  case 0
  then show ?case by (simp add: FindTextureID_loop.simps)
next
  case (Suc d)
  then have lt: "i < m_loadedTextures s" by linarith
  with Suc.prems have ib: "in_bounds s i" by (simp add: in_bounds_def)
  from Suc.prems lt have ne: "tag (m_textureIDs s ! nat i) \<noteq> t" by simp
  have "FindTextureID_loop s t r (i + 1) False = Inr r"
    using Suc.hyps Suc.prems by (intro Suc.hyps(1)) auto
  with lt ib ne show ?case
    by (subst FindTextureID_loop.simps) simp
qed

lemma FindTextureID_loop_hit:
  assumes "k < m_loadedTextures s" and "m_loadedTextures s \<le> int (length (m_textureIDs s))"
    and "0 \<le> i" and "i \<le> k" and "tag (m_textureIDs s ! nat k) = t"
    and "\<forall>j. i \<le> j \<and> j < k \<longrightarrow> tag (m_textureIDs s ! nat j) \<noteq> t"
  shows "FindTextureID_loop s t r i False = Inr (sint (ID (m_textureIDs s ! nat k)))"
  using assms
proof (induction "nat (k - i)" arbitrary: i r)
  case 0
  then have ik: "i = k" by simp
  with 0 have ib: "in_bounds s k" by (simp add: in_bounds_def)
  have "FindTextureID_loop s t (sint (ID (m_textureIDs s ! nat k))) k True
          = Inr (sint (ID (m_textureIDs s ! nat k)))"
    by (subst FindTextureID_loop.simps) simp
  with 0 ik ib show ?case
    by (subst FindTextureID_loop.simps) simp
next
  case (Suc d)
  then have lt: "i < k" by linarith
  with Suc.prems have ib: "in_bounds s i" by (simp add: in_bounds_def)
  from Suc.prems lt have ne: "tag (m_textureIDs s ! nat i) \<noteq> t" by simp
  have "FindTextureID_loop s t r (i + 1) False = Inr (sint (ID (m_textureIDs s ! nat k)))"
    using Suc.hyps Suc.prems lt by (intro Suc.hyps(1)) auto
  with lt ib ne Suc.prems show ?case
    by (subst FindTextureID_loop.simps) simp
qed


lemma CreateGLTexture_supported:
  assumes "supported stbi_load filename" and "in_bounds s (m_loadedTextures s)"
  shows "\<exists>s'. CreateGLTexture stbi_load generated filename tag' s = Inr (True, s')
           \<and> m_textureIDs s' =
               (m_textureIDs s)[nat (m_loadedTextures s) := \<lparr>ID = generated, tag = tag'\<rparr>]
           \<and> m_loadedTextures s' = m_loadedTextures s + 1
           \<and> m_pShaderManager s' = m_pShaderManager s
           \<and> m_objectMaterials s' = m_objectMaterials s
           \<and> uniforms s' = uniforms s"
  using assms
  by (auto simp add: supported_def CreateGLTexture_def register_texture_def issue_def
      in_bounds_def Let_def split: option.splits)

lemma CreateGLTexture_not_supported:
  assumes "\<not> supported stbi_load filename"
  shows "\<exists>s'. CreateGLTexture stbi_load generated filename tag' s = Inr (False, s')
           \<and> m_textureIDs s' = m_textureIDs s
           \<and> m_loadedTextures s' = m_loadedTextures s
           \<and> m_pShaderManager s' = m_pShaderManager s
           \<and> m_objectMaterials s' = m_objectMaterials s
           \<and> uniforms s' = uniforms s"
  using assms
  by (auto simp add: supported_def CreateGLTexture_def issue_def Let_def split: option.splits)

lemma CreateGLTextures_registers:
  assumes "0 \<le> m_loadedTextures s"
    and "m_loadedTextures s + int (length (registrations stbi_load reqs))
           \<le> int (length (m_textureIDs s))"
  shows "\<exists>s'. CreateGLTextures stbi_load reqs s =
                 Inr (map (\<lambda>(generated, filename, tag'). supported stbi_load filename) reqs, s')
           \<and> m_loadedTextures s' =
               m_loadedTextures s + int (length (registrations stbi_load reqs))
           \<and> length (m_textureIDs s') = length (m_textureIDs s)
           \<and> (\<forall>j < nat (m_loadedTextures s). m_textureIDs s' ! j = m_textureIDs s ! j)
           \<and> (\<forall>k < length (registrations stbi_load reqs).
                 m_textureIDs s' ! (nat (m_loadedTextures s) + k) =
                   \<lparr>ID = fst (registrations stbi_load reqs ! k),
                    tag = snd (registrations stbi_load reqs ! k)\<rparr>)"
  using assms
proof (induction reqs arbitrary: s)
  case Nil
  then show ?case by (simp add: registrations_def)
next
  case (Cons req reqs)
  obtain generated filename tag' where req: "req = (generated, filename, tag')"
    by (cases req) auto
  show ?case
  proof (cases "supported stbi_load filename")
    case True
    then have regs: "registrations stbi_load (req # reqs) =
        (generated, tag') # registrations stbi_load reqs"
      by (simp add: registrations_def req)
    with Cons.prems have ib: "in_bounds s (m_loadedTextures s)"
      by (simp add: in_bounds_def)
    from CreateGLTexture_supported [OF True ib, of generated tag']
    obtain s1 where s1: "CreateGLTexture stbi_load generated filename tag' s = Inr (True, s1)"
      and arr1: "m_textureIDs s1 =
        (m_textureIDs s)[nat (m_loadedTextures s) := \<lparr>ID = generated, tag = tag'\<rparr>]"
      and n1: "m_loadedTextures s1 = m_loadedTextures s + 1"
      by blast
    have "0 \<le> m_loadedTextures s1" using n1 Cons.prems by simp
    moreover have "m_loadedTextures s1 + int (length (registrations stbi_load reqs))
        \<le> int (length (m_textureIDs s1))"
      using n1 arr1 Cons.prems regs by simp
    ultimately obtain s2 where
      s2: "CreateGLTextures stbi_load reqs s1 =
             Inr (map (\<lambda>(generated, filename, tag'). supported stbi_load filename) reqs, s2)"
      and n2: "m_loadedTextures s2 =
             m_loadedTextures s1 + int (length (registrations stbi_load reqs))"
      and len2: "length (m_textureIDs s2) = length (m_textureIDs s1)"
      and old2: "\<forall>j < nat (m_loadedTextures s1). m_textureIDs s2 ! j = m_textureIDs s1 ! j"
      and new2: "\<forall>k < length (registrations stbi_load reqs).
                 m_textureIDs s2 ! (nat (m_loadedTextures s1) + k) =
                   \<lparr>ID = fst (registrations stbi_load reqs ! k),
                    tag = snd (registrations stbi_load reqs ! k)\<rparr>"
      using Cons.IH [of s1] by blast
    have nat1: "nat (m_loadedTextures s1) = Suc (nat (m_loadedTextures s))"
      using n1 Cons.prems by simp
    have lt: "nat (m_loadedTextures s) < length (m_textureIDs s)"
      using ib by (auto simp add: in_bounds_def)
    have A: "CreateGLTextures stbi_load (req # reqs) s =
        Inr (map (\<lambda>(generated, filename, tag'). supported stbi_load filename) (req # reqs), s2)"
      using s1 s2 True by (simp add: req)
    have B: "m_loadedTextures s2 =
        m_loadedTextures s + int (length (registrations stbi_load (req # reqs)))"
      using n2 n1 regs by simp
    have C: "length (m_textureIDs s2) = length (m_textureIDs s)"
      using len2 arr1 by simp
    have D: "\<forall>j < nat (m_loadedTextures s). m_textureIDs s2 ! j = m_textureIDs s ! j"
      using old2 nat1 arr1 by simp
    have E: "\<forall>k < length (registrations stbi_load (req # reqs)).
        m_textureIDs s2 ! (nat (m_loadedTextures s) + k) =
          \<lparr>ID = fst (registrations stbi_load (req # reqs) ! k),
           tag = snd (registrations stbi_load (req # reqs) ! k)\<rparr>"
    proof (intro allI impI)
      fix k assume k: "k < length (registrations stbi_load (req # reqs))"
      show "m_textureIDs s2 ! (nat (m_loadedTextures s) + k) =
          \<lparr>ID = fst (registrations stbi_load (req # reqs) ! k),
           tag = snd (registrations stbi_load (req # reqs) ! k)\<rparr>"
      proof (cases k)
        case 0
        then show ?thesis using old2 nat1 arr1 lt regs by simp
      next
        case (Suc k')
        then show ?thesis using new2 nat1 regs k by simp
      qed
    qed
    from A B C D E show ?thesis by blast
  next
    case False
    then have regs: "registrations stbi_load (req # reqs) = registrations stbi_load reqs"
      by (simp add: registrations_def req)
    from CreateGLTexture_not_supported [OF False, of generated tag' s]
    obtain s1 where s1: "CreateGLTexture stbi_load generated filename tag' s = Inr (False, s1)"
      and arr1: "m_textureIDs s1 = m_textureIDs s"
      and n1: "m_loadedTextures s1 = m_loadedTextures s"
      by blast
    have "0 \<le> m_loadedTextures s1" using n1 Cons.prems by simp
    moreover have "m_loadedTextures s1 + int (length (registrations stbi_load reqs))
        \<le> int (length (m_textureIDs s1))"
      using n1 arr1 Cons.prems regs by simp
    ultimately obtain s2 where
      s2: "CreateGLTextures stbi_load reqs s1 =
             Inr (map (\<lambda>(generated, filename, tag'). supported stbi_load filename) reqs, s2)"
      and rest: "m_loadedTextures s2 =
             m_loadedTextures s1 + int (length (registrations stbi_load reqs))"
        "length (m_textureIDs s2) = length (m_textureIDs s1)"
        "\<forall>j < nat (m_loadedTextures s1). m_textureIDs s2 ! j = m_textureIDs s1 ! j"
        "\<forall>k < length (registrations stbi_load reqs).
                 m_textureIDs s2 ! (nat (m_loadedTextures s1) + k) =
                   \<lparr>ID = fst (registrations stbi_load reqs ! k),
                    tag = snd (registrations stbi_load reqs ! k)\<rparr>"
      using Cons.IH [of s1] by blast
    have A: "CreateGLTextures stbi_load (req # reqs) s =
        Inr (map (\<lambda>(generated, filename, tag'). supported stbi_load filename) (req # reqs), s2)"
      using s1 s2 False by (simp add: req)
    from A rest show ?thesis unfolding regs n1 arr1 by blast
  qed
qed

text \<open>
  C5. Starting with no texture loaded and an array of \<open>MAX_SLOTS\<close> entries, any
  sequence of \<^verbatim>\<open>CreateGLTexture\<close> calls with at most 16 successful ones runs
  without fault and returns \<open>true\<close> exactly for the supported files. The successful
  registration number \<open>n\<close> (counted from 0) is stored at index \<open>n\<close> with the
  name \<^verbatim>\<open>glGenTextures\<close> produced and its tag. For the first registration of a
  tag, \<^verbatim>\<open>FindTextureSlot\<close> returns that index and \<^verbatim>\<open>FindTextureID\<close> that
  name (as the \<^verbatim>\<open>int\<close> the \<^verbatim>\<open>GLuint\<close> converts to); a tag that was never
  registered gives \<open>-1\<close> from both.
\<close>

theorem texture_registration_and_lookup:
  assumes "m_loadedTextures s = 0" and "length (m_textureIDs s) = MAX_SLOTS"
    and "length (registrations stbi_load reqs) \<le> 16"
  shows "\<exists>s'. CreateGLTextures stbi_load reqs s =
                 Inr (map (\<lambda>(generated, filename, tag'). supported stbi_load filename) reqs, s')
           \<and> m_loadedTextures s' = int (length (registrations stbi_load reqs))
           \<and> (\<forall>n < length (registrations stbi_load reqs).
                 m_textureIDs s' ! n =
                   \<lparr>ID = fst (registrations stbi_load reqs ! n),
                    tag = snd (registrations stbi_load reqs ! n)\<rparr>
                 \<and> ((\<forall>j < n. snd (registrations stbi_load reqs ! j)
                               \<noteq> snd (registrations stbi_load reqs ! n))
                      \<longrightarrow> FindTextureSlot s' (snd (registrations stbi_load reqs ! n)) = Inr (int n)
                        \<and> FindTextureID s' (snd (registrations stbi_load reqs ! n)) =
                            Inr (sint (fst (registrations stbi_load reqs ! n)))))
           \<and> (\<forall>T. T \<notin> snd ` set (registrations stbi_load reqs)
                 \<longrightarrow> FindTextureSlot s' T = Inr (- 1) \<and> FindTextureID s' T = Inr (- 1))"
proof -
  let ?regs = "registrations stbi_load reqs"
  have "0 \<le> m_loadedTextures s" using assms by simp
  moreover have "m_loadedTextures s + int (length ?regs) \<le> int (length (m_textureIDs s))"
    using assms by (simp add: MAX_SLOTS_def)
  ultimately obtain s' where
    run: "CreateGLTextures stbi_load reqs s =
            Inr (map (\<lambda>(generated, filename, tag'). supported stbi_load filename) reqs, s')"
    and n: "m_loadedTextures s' = m_loadedTextures s + int (length ?regs)"
    and len: "length (m_textureIDs s') = length (m_textureIDs s)"
    and new: "\<forall>k < length ?regs. m_textureIDs s' ! (nat (m_loadedTextures s) + k) =
                \<lparr>ID = fst (?regs ! k), tag = snd (?regs ! k)\<rparr>"
    using CreateGLTextures_registers [of s stbi_load reqs] by blast
  have n': "m_loadedTextures s' = int (length ?regs)" using n assms by simp
  have entry: "m_textureIDs s' ! k = \<lparr>ID = fst (?regs ! k), tag = snd (?regs ! k)\<rparr>"
    if "k < length ?regs" for k
    using new that assms by simp
  have bound: "m_loadedTextures s' \<le> int (length (m_textureIDs s'))"
    using n' len assms by (simp add: MAX_SLOTS_def)
  have hit: "FindTextureSlot s' (snd (?regs ! k)) = Inr (int k)
      \<and> FindTextureID s' (snd (?regs ! k)) = Inr (sint (fst (?regs ! k)))"
    if k: "k < length ?regs" and first: "\<forall>j < k. snd (?regs ! j) \<noteq> snd (?regs ! k)" for k
  proof -
    have lt: "int k < m_loadedTextures s'" using k n' by simp
    have tagk: "tag (m_textureIDs s' ! nat (int k)) = snd (?regs ! k)"
      using entry [OF k] by simp
    have before: "\<forall>j. 0 \<le> j \<and> j < int k
        \<longrightarrow> tag (m_textureIDs s' ! nat j) \<noteq> snd (?regs ! k)"
    proof (intro allI impI)
      fix j :: int assume j: "0 \<le> j \<and> j < int k"
      then have jk: "nat j < k" by linarith
      then have "nat j < length ?regs" using k by simp
      from entry [OF this] first jk show "tag (m_textureIDs s' ! nat j) \<noteq> snd (?regs ! k)"
        by simp
    qed
    have "FindTextureSlot_loop s' (snd (?regs ! k)) (- 1) 0 False = Inr (int k)"
      by (rule FindTextureSlot_loop_hit [OF lt bound _ _ tagk before]) simp_all
    moreover have "FindTextureID_loop s' (snd (?regs ! k)) (- 1) 0 False =
        Inr (sint (ID (m_textureIDs s' ! nat (int k))))"
      by (rule FindTextureID_loop_hit [OF lt bound _ _ tagk before]) simp_all
    ultimately show ?thesis
      using entry [OF k] by (simp add: FindTextureSlot_def FindTextureID_def)
  qed
  have miss: "FindTextureSlot s' T = Inr (- 1) \<and> FindTextureID s' T = Inr (- 1)"
    if T: "T \<notin> snd ` set ?regs" for T
  proof -
    have none: "\<forall>j. 0 \<le> j \<and> j < m_loadedTextures s' \<longrightarrow> tag (m_textureIDs s' ! nat j) \<noteq> T"
    proof (intro allI impI)
      fix j :: int assume j: "0 \<le> j \<and> j < m_loadedTextures s'"
      then have jl: "nat j < length ?regs" using n' by linarith
      then have "?regs ! nat j \<in> set ?regs" by simp
      then have "snd (?regs ! nat j) \<noteq> T" using T by force
      with entry [OF jl] show "tag (m_textureIDs s' ! nat j) \<noteq> T" by simp
    qed
    show ?thesis
      using FindTextureSlot_loop_miss [OF bound _ none, of "- 1"]
        FindTextureID_loop_miss [OF bound _ none, of "- 1"]
      by (simp add: FindTextureSlot_def FindTextureID_def)
  qed
  from run n' entry hit miss show ?thesis by blast
qed

lemma example_registrations:
  "registrations example_stbi_load example_requests = [(7, ''desk''), (10, ''lamp''), (11, ''desk'')]"
  by (simp add: registrations_def example_requests_def supported_def example_stbi_load_def)

theorem texture_registration_and_lookup_witness:
  "m_loadedTextures example_scene = 0 \<and> length (m_textureIDs example_scene) = MAX_SLOTS
     \<and> length (registrations example_stbi_load example_requests) \<le> 16
     \<and> (\<exists>s'. CreateGLTextures example_stbi_load example_requests example_scene =
                 Inr ([True, False, False, True, True], s')
           \<and> m_loadedTextures s' = 3
           \<and> m_textureIDs s' ! 1 = \<lparr>ID = 10, tag = ''lamp''\<rparr>
           \<and> FindTextureSlot s' ''lamp'' = Inr 1 \<and> FindTextureID s' ''lamp'' = Inr 10
           \<and> FindTextureSlot s' ''desk'' = Inr 0 \<and> FindTextureID s' ''desk'' = Inr 7
           \<and> FindTextureSlot s' ''shade'' = Inr (- 1) \<and> FindTextureID s' ''shade'' = Inr (- 1))"
proof -
  have h1: "m_loadedTextures example_scene = 0" by (simp add: example_scene_def)
  have h2: "length (m_textureIDs example_scene) = MAX_SLOTS"
    by (simp add: example_scene_def MAX_SLOTS_def)
  have h3: "length (registrations example_stbi_load example_requests) \<le> 16"
    by (simp add: example_registrations)
  from texture_registration_and_lookup [OF h1 h2 h3]
  obtain s' where
    run: "CreateGLTextures example_stbi_load example_requests example_scene =
            Inr (map (\<lambda>(generated, filename, tag'). supported example_stbi_load filename)
                   example_requests, s')"
    and n: "m_loadedTextures s' = int (length (registrations example_stbi_load example_requests))"
    and hit: "\<forall>n < length (registrations example_stbi_load example_requests).
                 m_textureIDs s' ! n =
                   \<lparr>ID = fst (registrations example_stbi_load example_requests ! n),
                    tag = snd (registrations example_stbi_load example_requests ! n)\<rparr>
                 \<and> ((\<forall>j < n. snd (registrations example_stbi_load example_requests ! j)
                               \<noteq> snd (registrations example_stbi_load example_requests ! n))
                      \<longrightarrow> FindTextureSlot s'
                            (snd (registrations example_stbi_load example_requests ! n)) = Inr (int n)
                        \<and> FindTextureID s'
                            (snd (registrations example_stbi_load example_requests ! n)) =
                            Inr (sint (fst (registrations example_stbi_load example_requests ! n))))"
    and miss: "\<forall>T. T \<notin> snd ` set (registrations example_stbi_load example_requests)
                 \<longrightarrow> FindTextureSlot s' T = Inr (- 1) \<and> FindTextureID s' T = Inr (- 1)"
    by blast
  have flags: "map (\<lambda>(generated, filename, tag'). supported example_stbi_load filename)
      example_requests = [True, False, False, True, True]"
    by (simp add: example_requests_def supported_def example_stbi_load_def)
  have a: "m_textureIDs s' ! 1 = \<lparr>ID = 10, tag = ''lamp''\<rparr>
      \<and> FindTextureSlot s' ''lamp'' = Inr 1 \<and> FindTextureID s' ''lamp'' = Inr 10"
    using hit [rule_format, of 1] by (simp add: example_registrations)
  have b: "FindTextureSlot s' ''desk'' = Inr 0 \<and> FindTextureID s' ''desk'' = Inr 7"
    using hit [rule_format, of 0] by (simp add: example_registrations)
  have c: "FindTextureSlot s' ''shade'' = Inr (- 1) \<and> FindTextureID s' ''shade'' = Inr (- 1)"
    using miss [rule_format, of "''shade''"] by (simp add: example_registrations)
  from h1 h2 h3 run flags n a b c show ?thesis by (simp add: example_registrations)
qed

section \<open>Shader state pushes\<close>

lemma FindTextureSlot_loop_returns:
  assumes "m_loadedTextures s \<le> int (length (m_textureIDs s))" and "0 \<le> i"
  shows "\<exists>k. FindTextureSlot_loop s t r i b = Inr k"
  using assms
proof (induction s t r i b rule: FindTextureSlot_loop.induct)
  case (1 s tag' textureSlot index bFound)
  show ?case
  proof (cases "index < m_loadedTextures s \<and> bFound = False")
    case False
    then show ?thesis by (subst FindTextureSlot_loop.simps) auto
  next
    case True
    with "1.prems" have ib: "in_bounds s index" by (simp add: in_bounds_def)
    show ?thesis
    proof (cases "tag (m_textureIDs s ! nat index) = tag'")
      case eq: True
      from "1.IH"(1) [OF True ib eq "1.prems"]
      show ?thesis using True ib eq by (subst FindTextureSlot_loop.simps) simp
    next
      case ne: False
      have "0 \<le> index + 1" using "1.prems" by simp
      from "1.IH"(2) [OF True ib ne "1.prems"(1) this]
      show ?thesis using True ib ne by (subst FindTextureSlot_loop.simps) simp
    qed
  qed
qed

lemma not_loaded_tag:
  assumes "m_loadedTextures s \<le> int (length (m_textureIDs s))"
    and "t \<notin> set (loaded_tags s)"
  shows "\<forall>j. 0 \<le> j \<and> j < m_loadedTextures s \<longrightarrow> tag (m_textureIDs s ! nat j) \<noteq> t"
proof (intro allI impI)
  fix j :: int assume j: "0 \<le> j \<and> j < m_loadedTextures s"
  then have lt: "nat j < nat (m_loadedTextures s)" by linarith
  moreover have "nat (m_loadedTextures s) \<le> length (m_textureIDs s)" using assms(1) by linarith
  ultimately have "nat j < length (loaded_tags s)" by (simp add: loaded_tags_def)
  then have "loaded_tags s ! nat j \<in> set (loaded_tags s)" by (rule nth_mem)
  moreover have "loaded_tags s ! nat j = tag (m_textureIDs s ! nat j)"
    using lt \<open>nat (m_loadedTextures s) \<le> length (m_textureIDs s)\<close>
    by (simp add: loaded_tags_def)
  ultimately show "tag (m_textureIDs s ! nat j) \<noteq> t" using assms(2) by metis
qed

text \<open>
  C7. With a shader manager attached and a tag that no live texture entry carries,
  \<^verbatim>\<open>FindTextureSlot\<close> returns \<open>-1\<close> and \<^verbatim>\<open>SetShaderTexture\<close> makes exactly two
  setter calls: \<^verbatim>\<open>bUseTexture\<close> set to 1 and the sampler \<^verbatim>\<open>objectTexture\<close> set to
  \<open>-1\<close>. There is no fall-back to the flat colour and the push is not skipped.
\<close>

theorem SetShaderTexture_unregistered_tag:
  assumes "m_pShaderManager s \<noteq> NULL"
    and "m_loadedTextures s \<le> int (length (m_textureIDs s))"
    and "t \<notin> set (loaded_tags s)"
  shows "FindTextureSlot s t = Inr (- 1)
     \<and> SetShaderTexture t s =
         Inr (s\<lparr>uniforms := uniforms s @
                 [setIntValue g_UseTextureName 1, setSampler2DValue g_TextureValueName (- 1)]\<rparr>)"
proof -
  let ?s1 = "push [setIntValue g_UseTextureName 1] s"
  note none = not_loaded_tag [OF assms(2,3)]
  have "FindTextureSlot_loop s t (- 1) 0 False = Inr (- 1)"
    using FindTextureSlot_loop_miss [OF assms(2) _ none, of "- 1"] by simp
  moreover have "FindTextureSlot_loop ?s1 t (- 1) 0 False = Inr (- 1)"
    using assms(2) none by (intro FindTextureSlot_loop_miss) (simp_all add: push_def)
  ultimately show ?thesis
    using assms(1)
    by (simp add: SetShaderTexture_def FindTextureSlot_def) (simp add: push_def)
qed

text \<open>
  C9. With a null \<^verbatim>\<open>m_pShaderManager\<close>, the four methods \<^verbatim>\<open>SetTransformations\<close>,
  \<^verbatim>\<open>SetShaderColor\<close>, \<^verbatim>\<open>SetShaderTexture\<close> and \<^verbatim>\<open>SetTextureUVScale\<close> leave the whole
  state as it is, for every argument: no setter call is made.
\<close>

theorem null_shader_manager_pushes_nothing:
  assumes "m_pShaderManager s = NULL"
  shows "SetTransformations scaleXYZ xr yr zr positionXYZ s = s
     \<and> SetShaderColor r g b a s = s
     \<and> SetShaderTexture t s = Inr s
     \<and> SetTextureUVScale u v s = s"
  using assms
  by (simp add: SetTransformations_def SetShaderColor_def SetShaderTexture_def
      SetTextureUVScale_def)

lemma FindTextureSlot_loop_uniforms:
  "FindTextureSlot_loop (s\<lparr>uniforms := us\<rparr>) t r i b = FindTextureSlot_loop s t r i b"
proof (induction s t r i b rule: FindTextureSlot_loop.induct)
  case (1 s tag' textureSlot index bFound)
  note unfold = FindTextureSlot_loop.simps [of s tag' textureSlot index bFound]
    FindTextureSlot_loop.simps [of "s\<lparr>uniforms := us\<rparr>" tag' textureSlot index bFound]
  show ?case
  proof (cases "index < m_loadedTextures s \<and> bFound = False")
    case False
    then show ?thesis unfolding unfold by (auto simp add: in_bounds_def)
  next
    case True
    show ?thesis
    proof (cases "in_bounds s index")
      case nb: False
      with True show ?thesis unfolding unfold by (auto simp add: in_bounds_def)
    next
      case ib: True
      show ?thesis
      proof (cases "tag (m_textureIDs s ! nat index) = tag'")
        case eq: True
        from "1.IH"(1) [OF True ib eq] True ib eq show ?thesis
          unfolding unfold by (auto simp add: in_bounds_def)
      next
        case ne: False
        from "1.IH"(2) [OF True ib ne] True ib ne show ?thesis
          unfolding unfold by (auto simp add: in_bounds_def)
      qed
    qed
  qed
qed

lemma SetShaderColor_pushes:
  assumes "m_pShaderManager s \<noteq> NULL"
  shows "SetShaderColor r g b a s =
     s\<lparr>uniforms := uniforms s @
          [setIntValue g_UseTextureName 0, setVec4Value g_ColorValueName (r, g, b, a)]\<rparr>"
  using assms by (simp add: SetShaderColor_def push_def)

lemma SetShaderTexture_pushes:
  assumes "m_pShaderManager s \<noteq> NULL"
    and "m_loadedTextures s \<le> int (length (m_textureIDs s))"
  shows "\<exists>slot. FindTextureSlot s t = Inr slot
     \<and> SetShaderTexture t s =
         Inr (s\<lparr>uniforms := uniforms s @
                 [setIntValue g_UseTextureName 1, setSampler2DValue g_TextureValueName slot]\<rparr>)"
proof -
  obtain slot where slot: "FindTextureSlot_loop s t (- 1) 0 False = Inr slot"
    using FindTextureSlot_loop_returns [OF assms(2), of 0 t "- 1" False] by auto
  then show ?thesis
    using assms(1)
    by (simp add: SetShaderTexture_def FindTextureSlot_def push_def
        FindTextureSlot_loop_uniforms)
qed

lemma current_uniform_append:
  "current_uniform n (s\<lparr>uniforms := uniforms s @ [u, v]\<rparr>) =
     (if uniform_name v = n then Some v
      else if uniform_name u = n then Some u
      else current_uniform n s)"
  by (cases "filter (\<lambda>u. uniform_name u = n) (uniforms s)")
    (auto simp add: current_uniform_def)

lemma gateway_last_call:
  assumes "m_pShaderManager s \<noteq> NULL"
    and "m_loadedTextures s \<le> int (length (m_textureIDs s))"
    and "cs \<noteq> []"
  shows "\<exists>s'. gateway cs s = Inr s'
     \<and> current_uniform g_UseTextureName s' =
         Some (setIntValue g_UseTextureName (if is_SetTexture (last cs) then 1 else 0))"
  using assms
proof (induction cs arbitrary: s)
  case Nil
  then show ?case by simp
next
  case (Cons c cs)
  have names: "g_ColorValueName \<noteq> g_UseTextureName" "g_TextureValueName \<noteq> g_UseTextureName"
    by (simp_all add: g_ColorValueName_def g_UseTextureName_def g_TextureValueName_def)
  obtain s1 where step: "gateway (c # cs) s = gateway cs s1"
    and ptr: "m_pShaderManager s1 \<noteq> NULL"
    and bound: "m_loadedTextures s1 \<le> int (length (m_textureIDs s1))"
    and cur: "current_uniform g_UseTextureName s1 =
        Some (setIntValue g_UseTextureName (if is_SetTexture c then 1 else 0))"
  proof (cases c)
    case (SetFlatColor r g b a)
    let ?s1 = "SetShaderColor r g b a s"
    have eq: "?s1 = s\<lparr>uniforms := uniforms s @
          [setIntValue g_UseTextureName 0, setVec4Value g_ColorValueName (r, g, b, a)]\<rparr>"
      using Cons.prems(1) by (rule SetShaderColor_pushes)
    show ?thesis
    proof (rule that [of ?s1])
      show "gateway (c # cs) s = gateway cs ?s1" by (simp add: SetFlatColor)
      show "m_pShaderManager ?s1 \<noteq> NULL" using Cons.prems(1) by (simp add: eq)
      show "m_loadedTextures ?s1 \<le> int (length (m_textureIDs ?s1))"
        using Cons.prems(2) by (simp add: eq)
      show "current_uniform g_UseTextureName ?s1 =
          Some (setIntValue g_UseTextureName (if is_SetTexture c then 1 else 0))"
        using names by (simp add: eq current_uniform_append SetFlatColor)
    qed
  next
    case (SetTexture t)
    obtain slot where eq: "SetShaderTexture t s =
        Inr (s\<lparr>uniforms := uniforms s @
                [setIntValue g_UseTextureName 1, setSampler2DValue g_TextureValueName slot]\<rparr>)"
      using SetShaderTexture_pushes [OF Cons.prems(1,2)] by blast
    let ?s1 = "s\<lparr>uniforms := uniforms s @
                [setIntValue g_UseTextureName 1, setSampler2DValue g_TextureValueName slot]\<rparr>"
    show ?thesis
    proof (rule that [of ?s1])
      show "gateway (c # cs) s = gateway cs ?s1" by (simp add: SetTexture eq)
      show "m_pShaderManager ?s1 \<noteq> NULL" using Cons.prems(1) by simp
      show "m_loadedTextures ?s1 \<le> int (length (m_textureIDs ?s1))"
        using Cons.prems(2) by simp
      show "current_uniform g_UseTextureName ?s1 =
          Some (setIntValue g_UseTextureName (if is_SetTexture c then 1 else 0))"
        using names by (simp add: current_uniform_append SetTexture)
    qed
  qed
  show ?case
  proof (cases "cs = []")
    case True
    with step cur show ?thesis by simp
  next
    case False
    from Cons.IH [OF ptr bound False] step False show ?thesis by simp
  qed
qed

text \<open>
  C8. With a shader manager attached and the live count within the array,
  \<^verbatim>\<open>SetShaderColor\<close> pushes \<^verbatim>\<open>bUseTexture\<close> = 0 and the RGBA colour,
  \<^verbatim>\<open>SetShaderTexture\<close> pushes \<^verbatim>\<open>bUseTexture\<close> = 1 and the slot that
  \<^verbatim>\<open>FindTextureSlot\<close> resolves, and after any non-empty sequence of the two calls
  the value the sink holds for \<^verbatim>\<open>bUseTexture\<close> is 1 exactly when the last call was
  \<^verbatim>\<open>SetShaderTexture\<close>.
\<close>

theorem texture_mode_follows_last_call:
  assumes "m_pShaderManager s \<noteq> NULL"
    and "m_loadedTextures s \<le> int (length (m_textureIDs s))"
  shows "SetShaderColor r g b a s =
           s\<lparr>uniforms := uniforms s @
                [setIntValue g_UseTextureName 0, setVec4Value g_ColorValueName (r, g, b, a)]\<rparr>
     \<and> (\<exists>slot. FindTextureSlot s t = Inr slot
           \<and> SetShaderTexture t s =
               Inr (s\<lparr>uniforms := uniforms s @
                       [setIntValue g_UseTextureName 1,
                        setSampler2DValue g_TextureValueName slot]\<rparr>))
     \<and> (cs \<noteq> [] \<longrightarrow>
          (\<exists>s'. gateway cs s = Inr s'
             \<and> current_uniform g_UseTextureName s' =
                 Some (setIntValue g_UseTextureName (if is_SetTexture (last cs) then 1 else 0))))"
  using SetShaderColor_pushes [OF assms(1)] SetShaderTexture_pushes [OF assms]
    gateway_last_call [OF assms]
  by blast

lemma DestroyGLTextures_loop_effect:
  assumes "0 \<le> i" and "m_loadedTextures s \<le> int (length (m_textureIDs s))"
  shows "\<exists>s'. DestroyGLTextures_loop generated i s = Inr s'
     \<and> calls s' = calls s @
          map (\<lambda>k. glGenTextures (generated (int k))) [nat i..<nat (m_loadedTextures s)]
     \<and> m_loadedTextures s' = m_loadedTextures s
     \<and> length (m_textureIDs s') = length (m_textureIDs s)
     \<and> (\<forall>k < length (m_textureIDs s).
           tag (m_textureIDs s' ! k) = tag (m_textureIDs s ! k)
           \<and> ID (m_textureIDs s' ! k) =
               (if nat i \<le> k \<and> k < nat (m_loadedTextures s) then generated (int k)
                else ID (m_textureIDs s ! k)))
     \<and> m_pShaderManager s' = m_pShaderManager s
     \<and> m_objectMaterials s' = m_objectMaterials s
     \<and> uniforms s' = uniforms s"
  using assms
proof (induction "nat (m_loadedTextures s - i)" arbitrary: i s)
  case 0
  then have "\<not> i < m_loadedTextures s" by simp
  then show ?case
    by (subst DestroyGLTextures_loop.simps) auto
next
  case (Suc d)
  then have lt: "i < m_loadedTextures s" by linarith
  with Suc.prems have ib: "in_bounds s i" by (simp add: in_bounds_def)
  let ?s1 = "s\<lparr>m_textureIDs :=
                  (m_textureIDs s)[nat i := (m_textureIDs s ! nat i)\<lparr>ID := generated i\<rparr>],
                calls := calls s @ [glGenTextures (generated i)]\<rparr>"
  have step: "DestroyGLTextures_loop generated i s = DestroyGLTextures_loop generated (i + 1) ?s1"
    using lt ib by (subst DestroyGLTextures_loop.simps) simp
  have d: "d = nat (m_loadedTextures ?s1 - (i + 1))" using Suc.hyps(2) by simp
  have p1: "0 \<le> i + 1" using Suc.prems by simp
  have p2: "m_loadedTextures ?s1 \<le> int (length (m_textureIDs ?s1))" using Suc.prems by simp
  from Suc.hyps(1) [OF d p1 p2]
  obtain s' where run: "DestroyGLTextures_loop generated (i + 1) ?s1 = Inr s'"
    and c: "calls s' = calls ?s1 @
          map (\<lambda>k. glGenTextures (generated (int k))) [nat (i + 1)..<nat (m_loadedTextures ?s1)]"
    and n: "m_loadedTextures s' = m_loadedTextures ?s1"
    and len: "length (m_textureIDs s') = length (m_textureIDs ?s1)"
    and ent: "\<forall>k < length (m_textureIDs ?s1).
           tag (m_textureIDs s' ! k) = tag (m_textureIDs ?s1 ! k)
           \<and> ID (m_textureIDs s' ! k) =
               (if nat (i + 1) \<le> k \<and> k < nat (m_loadedTextures ?s1) then generated (int k)
                else ID (m_textureIDs ?s1 ! k))"
    and rest: "m_pShaderManager s' = m_pShaderManager ?s1"
      "m_objectMaterials s' = m_objectMaterials ?s1" "uniforms s' = uniforms ?s1"
    by blast
  have nat_i: "nat (i + 1) = Suc (nat i)" using Suc.prems by simp
  have lt': "nat i < nat (m_loadedTextures s)" using lt Suc.prems by simp
  have upt: "[nat i..<nat (m_loadedTextures s)] = nat i # [nat (i + 1)..<nat (m_loadedTextures s)]"
    using lt' by (simp add: nat_i upt_conv_Cons)
  have gi: "generated (int (nat i)) = generated i" using Suc.prems by simp
  have A: "calls s' = calls s @
          map (\<lambda>k. glGenTextures (generated (int k))) [nat i..<nat (m_loadedTextures s)]"
    using c upt gi by simp
  have B: "\<forall>k < length (m_textureIDs s).
           tag (m_textureIDs s' ! k) = tag (m_textureIDs s ! k)
           \<and> ID (m_textureIDs s' ! k) =
               (if nat i \<le> k \<and> k < nat (m_loadedTextures s) then generated (int k)
                else ID (m_textureIDs s ! k))"
  proof (intro allI impI)
    fix k assume k: "k < length (m_textureIDs s)"
    then have k1: "k < length (m_textureIDs ?s1)" by simp
    show "tag (m_textureIDs s' ! k) = tag (m_textureIDs s ! k)
           \<and> ID (m_textureIDs s' ! k) =
               (if nat i \<le> k \<and> k < nat (m_loadedTextures s) then generated (int k)
                else ID (m_textureIDs s ! k))"
    proof (cases "k = nat i")
      case True
      with ent [rule_format, OF k1] k lt' gi show ?thesis by (simp add: nat_i)
    next
      case False
      with ent [rule_format, OF k1] k show ?thesis by (auto simp add: nat_i)
    qed
  qed
  from step run A B n len rest show ?case by simp
qed

text \<open>
  C10. With \<open>N\<close> live entries (\<open>N\<close> within the array), \<^verbatim>\<open>DestroyGLTextures\<close> issues
  exactly \<open>N\<close> calls, all of them \<^verbatim>\<open>glGenTextures\<close> and none of them
  \<^verbatim>\<open>glDeleteTextures\<close>; entry \<open>k < N\<close> has its \<open>ID\<close> overwritten by the name
  generated in iteration \<open>k\<close>; the live count, all tags and the entries from \<open>N\<close> on are
  unchanged.
\<close>

theorem DestroyGLTextures_generates_names:
  assumes "m_loadedTextures s \<le> int (length (m_textureIDs s))"
  shows "\<exists>s'. DestroyGLTextures generated s = Inr s'
     \<and> calls s' = calls s @
          map (\<lambda>k. glGenTextures (generated (int k))) [0..<nat (m_loadedTextures s)]
     \<and> (\<forall>h. glDeleteTextures h \<notin> set (drop (length (calls s)) (calls s')))
     \<and> m_loadedTextures s' = m_loadedTextures s
     \<and> map tag (m_textureIDs s') = map tag (m_textureIDs s)
     \<and> (\<forall>k < nat (m_loadedTextures s). ID (m_textureIDs s' ! k) = generated (int k))
     \<and> (\<forall>k. nat (m_loadedTextures s) \<le> k \<and> k < length (m_textureIDs s)
           \<longrightarrow> m_textureIDs s' ! k = m_textureIDs s ! k)"
proof -
  from DestroyGLTextures_loop_effect [OF _ assms, of 0 generated]
  obtain s' where run: "DestroyGLTextures_loop generated 0 s = Inr s'"
    and c: "calls s' = calls s @
          map (\<lambda>k. glGenTextures (generated (int k))) [0..<nat (m_loadedTextures s)]"
    and n: "m_loadedTextures s' = m_loadedTextures s"
    and len: "length (m_textureIDs s') = length (m_textureIDs s)"
    and ent: "\<forall>k < length (m_textureIDs s).
           tag (m_textureIDs s' ! k) = tag (m_textureIDs s ! k)
           \<and> ID (m_textureIDs s' ! k) =
               (if k < nat (m_loadedTextures s) then generated (int k)
                else ID (m_textureIDs s ! k))"
    by auto
  have tags: "map tag (m_textureIDs s') = map tag (m_textureIDs s)"
    using len ent by (intro nth_equalityI) simp_all
  have nodel: "\<forall>h. glDeleteTextures h \<notin> set (drop (length (calls s)) (calls s'))"
    by (auto simp add: c)
  have ids: "\<forall>k < nat (m_loadedTextures s). ID (m_textureIDs s' ! k) = generated (int k)"
    using ent assms by auto
  have same: "\<forall>k. nat (m_loadedTextures s) \<le> k \<and> k < length (m_textureIDs s)
           \<longrightarrow> m_textureIDs s' ! k = m_textureIDs s ! k"
    using ent by (auto intro!: TEXTURE_INFO.equality)
  from run c nodel n tags ids same show ?thesis
    by (simp add: DestroyGLTextures_def)
qed

theorem SetShaderTexture_unregistered_tag_witness:
  "m_pShaderManager example_loaded_scene \<noteq> NULL
     \<and> m_loadedTextures example_loaded_scene \<le> int (length (m_textureIDs example_loaded_scene))
     \<and> ''marble'' \<notin> set (loaded_tags example_loaded_scene)
     \<and> FindTextureSlot example_loaded_scene ''marble'' = Inr (- 1)
     \<and> SetShaderTexture ''marble'' example_loaded_scene =
         Inr (example_loaded_scene\<lparr>uniforms :=
                [setIntValue ''bUseTexture'' 1, setSampler2DValue ''objectTexture'' (- 1)]\<rparr>)"
proof -
  have h1: "m_pShaderManager example_loaded_scene \<noteq> NULL"
    by (simp add: example_loaded_scene_def)
  have h2: "m_loadedTextures example_loaded_scene
      \<le> int (length (m_textureIDs example_loaded_scene))"
    by (simp add: example_loaded_scene_def)
  have h3: "''marble'' \<notin> set (loaded_tags example_loaded_scene)"
    by (simp add: example_loaded_scene_def loaded_tags_def)
  from SetShaderTexture_unregistered_tag [OF h1 h2 h3] h1 h2 h3 show ?thesis
    by (simp add: g_UseTextureName_def g_TextureValueName_def)
      (simp add: example_loaded_scene_def)
qed

theorem null_shader_manager_pushes_nothing_witness:
  "m_pShaderManager (example_loaded_scene\<lparr>m_pShaderManager := NULL\<rparr>) = NULL
     \<and> SetTransformations (2, 3, 4) 90 0 45 (5, 6, 7)
          (example_loaded_scene\<lparr>m_pShaderManager := NULL\<rparr>) =
         example_loaded_scene\<lparr>m_pShaderManager := NULL\<rparr>
     \<and> SetShaderColor 1 0 0 1 (example_loaded_scene\<lparr>m_pShaderManager := NULL\<rparr>) =
         example_loaded_scene\<lparr>m_pShaderManager := NULL\<rparr>
     \<and> SetShaderTexture ''desk'' (example_loaded_scene\<lparr>m_pShaderManager := NULL\<rparr>) =
         Inr (example_loaded_scene\<lparr>m_pShaderManager := NULL\<rparr>)
     \<and> SetTextureUVScale 2 2 (example_loaded_scene\<lparr>m_pShaderManager := NULL\<rparr>) =
         example_loaded_scene\<lparr>m_pShaderManager := NULL\<rparr>
     \<and> uniforms (example_loaded_scene\<lparr>m_pShaderManager := NULL\<rparr>) = []"
proof -
  have h: "m_pShaderManager (example_loaded_scene\<lparr>m_pShaderManager := NULL\<rparr>) = NULL"
    by simp
  from null_shader_manager_pushes_nothing [OF h] h show ?thesis
    by (simp add: example_loaded_scene_def)
qed

theorem texture_mode_follows_last_call_witness:
  "m_pShaderManager example_loaded_scene \<noteq> NULL
     \<and> m_loadedTextures example_loaded_scene \<le> int (length (m_textureIDs example_loaded_scene))
     \<and> [SetTexture ''lamp'', SetFlatColor 1 0 0 1, SetTexture ''desk''] \<noteq> []
     \<and> (\<exists>s'. gateway [SetTexture ''lamp'', SetFlatColor 1 0 0 1, SetTexture ''desk'']
                 example_loaded_scene = Inr s'
           \<and> current_uniform ''bUseTexture'' s' = Some (setIntValue ''bUseTexture'' 1))
     \<and> (\<exists>s'. gateway [SetTexture ''lamp'', SetFlatColor 1 0 0 1] example_loaded_scene = Inr s'
           \<and> current_uniform ''bUseTexture'' s' = Some (setIntValue ''bUseTexture'' 0))"
proof -
  have h1: "m_pShaderManager example_loaded_scene \<noteq> NULL"
    by (simp add: example_loaded_scene_def)
  have h2: "m_loadedTextures example_loaded_scene
      \<le> int (length (m_textureIDs example_loaded_scene))"
    by (simp add: example_loaded_scene_def)
  from texture_mode_follows_last_call
    [OF h1 h2, of 1 0 0 1 "''lamp''" "[SetTexture ''lamp'', SetFlatColor 1 0 0 1, SetTexture ''desk'']"]
  have a: "\<exists>s'. gateway [SetTexture ''lamp'', SetFlatColor 1 0 0 1, SetTexture ''desk'']
                 example_loaded_scene = Inr s'
           \<and> current_uniform ''bUseTexture'' s' = Some (setIntValue ''bUseTexture'' 1)"
    by (simp add: g_UseTextureName_def)
  from texture_mode_follows_last_call
    [OF h1 h2, of 1 0 0 1 "''lamp''" "[SetTexture ''lamp'', SetFlatColor 1 0 0 1]"]
  have b: "\<exists>s'. gateway [SetTexture ''lamp'', SetFlatColor 1 0 0 1] example_loaded_scene = Inr s'
           \<and> current_uniform ''bUseTexture'' s' = Some (setIntValue ''bUseTexture'' 0)"
    by (simp add: g_UseTextureName_def)
  from h1 h2 a b show ?thesis by simp
qed

theorem DestroyGLTextures_generates_names_witness:
  "m_loadedTextures example_loaded_scene \<le> int (length (m_textureIDs example_loaded_scene))
     \<and> (\<exists>s'. DestroyGLTextures (\<lambda>i. word_of_int (100 + i)) example_loaded_scene = Inr s'
           \<and> calls s' = [glGenTextures 100, glGenTextures 101]
           \<and> m_loadedTextures s' = 2
           \<and> map tag (m_textureIDs s') = map tag (m_textureIDs example_loaded_scene)
           \<and> ID (m_textureIDs s' ! 0) = 100 \<and> ID (m_textureIDs s' ! 1) = 101)"
proof -
  have h: "m_loadedTextures example_loaded_scene
      \<le> int (length (m_textureIDs example_loaded_scene))"
    by (simp add: example_loaded_scene_def)
  have n: "nat (m_loadedTextures example_loaded_scene) = 2"
    by (simp add: example_loaded_scene_def)
  have c: "calls example_loaded_scene = []" by (simp add: example_loaded_scene_def)
  have u: "[0..<2] = [0, Suc 0]" by (simp add: upt_conv_Cons)
  from DestroyGLTextures_generates_names [OF h, of "\<lambda>i. word_of_int (100 + i)"]
  obtain s' where run: "DestroyGLTextures (\<lambda>i. word_of_int (100 + i)) example_loaded_scene = Inr s'"
    and cs: "calls s' = calls example_loaded_scene @
          map (\<lambda>k. glGenTextures (word_of_int (100 + int k)))
            [0..<nat (m_loadedTextures example_loaded_scene)]"
    and cnt: "m_loadedTextures s' = m_loadedTextures example_loaded_scene"
    and tags: "map tag (m_textureIDs s') = map tag (m_textureIDs example_loaded_scene)"
    and ids: "\<forall>k < nat (m_loadedTextures example_loaded_scene).
                ID (m_textureIDs s' ! k) = word_of_int (100 + int k)"
    by blast
  have i0: "ID (m_textureIDs s' ! 0) = 100" using ids [rule_format, of 0] n by simp
  have i1: "ID (m_textureIDs s' ! 1) = 101" using ids [rule_format, of 1] n by simp
  have cs': "calls s' = [glGenTextures 100, glGenTextures 101]"
    using cs by (simp add: n c u)
  have cnt': "m_loadedTextures s' = 2" using cnt by (simp add: example_loaded_scene_def)
  from h run cs' cnt' tags i0 i1 show ?thesis by blast
qed

lemma CreateGLTexture_beyond_array:
  assumes "supported stbi_load filename" and "\<not> in_bounds s (m_loadedTextures s)"
  shows "CreateGLTexture stbi_load generated filename tag' s = Inl ArrayOutOfBounds"
  using assms
  by (auto simp add: supported_def CreateGLTexture_def register_texture_def issue_def
      in_bounds_def Let_def split: option.splits)

text \<open>
  C2. The claim asks for a failure that leaves the registry unchanged on the 17th
  registration. Evaluated on the code: sixteen loads of a supported file succeed
  from the empty registry, and the next \<^verbatim>\<open>CreateGLTexture\<close> of a supported file
  reaches the write to \<^verbatim>\<open>m_textureIDs[16]\<close>, outside the array; it does not return
  \<open>false\<close>.
\<close>

theorem seventeenth_CreateGLTexture_writes_beyond_array:
  "\<exists>s16. CreateGLTextures example_stbi_load sixteen_requests example_scene =
            Inr (replicate 16 True, s16)
     \<and> m_loadedTextures s16 = 16
     \<and> length (m_textureIDs s16) = MAX_SLOTS
     \<and> CreateGLTexture example_stbi_load 17 ''rgb.jpg'' ''marble'' s16 = Inl ArrayOutOfBounds"
proof -
  have sup: "supported example_stbi_load ''rgb.jpg''"
    by (simp add: supported_def example_stbi_load_def)
  have regs: "registrations example_stbi_load sixteen_requests =
      map (\<lambda>k. (of_nat (Suc k), ''wood'')) [0..<16]"
    using sup by (simp add: registrations_def sixteen_requests_def comp_def)
  have flags: "map (\<lambda>(generated, filename, tag'). supported example_stbi_load filename)
      sixteen_requests = replicate 16 True"
    using sup by (simp add: sixteen_requests_def comp_def map_replicate_const)
  have "0 \<le> m_loadedTextures example_scene" by (simp add: example_scene_def)
  moreover have "m_loadedTextures example_scene
      + int (length (registrations example_stbi_load sixteen_requests))
      \<le> int (length (m_textureIDs example_scene))"
    by (simp add: regs example_scene_def)
  ultimately obtain s16 where
    run: "CreateGLTextures example_stbi_load sixteen_requests example_scene =
            Inr (map (\<lambda>(generated, filename, tag'). supported example_stbi_load filename)
                   sixteen_requests, s16)"
    and n: "m_loadedTextures s16 = m_loadedTextures example_scene
              + int (length (registrations example_stbi_load sixteen_requests))"
    and len: "length (m_textureIDs s16) = length (m_textureIDs example_scene)"
    using CreateGLTextures_registers [of example_scene example_stbi_load sixteen_requests]
    by blast
  have n16: "m_loadedTextures s16 = 16" using n by (simp add: regs example_scene_def)
  have len16: "length (m_textureIDs s16) = 16" using len by (simp add: example_scene_def)
  have "\<not> in_bounds s16 (m_loadedTextures s16)"
    by (simp add: in_bounds_def n16 len16)
  from CreateGLTexture_beyond_array [OF sup this] run n16 len16 flags show ?thesis
    by (simp add: MAX_SLOTS_def)
qed

lemma FindMaterial_example:
  "FindMaterial example_loaded_scene ''glass'' example_indeterminate = (True, example_indeterminate)"
  by (simp add: FindMaterial_def FindMaterial_loop.simps example_loaded_scene_def
      example_material_def)

text \<open>
  C1. The claim asks that a tag no material carries is reported as not found and
  that \<^verbatim>\<open>SetShaderMaterial\<close> then pushes nothing. Evaluated on the code with two
  materials defined and the tag \<^verbatim>\<open>glass\<close>: \<^verbatim>\<open>FindMaterial\<close> returns \<open>true\<close> and
  leaves the caller's object untouched, and \<^verbatim>\<open>SetShaderMaterial\<close> pushes the three
  material uniforms from its uninitialised local.
\<close>

theorem SetShaderMaterial_unregistered_tag_pushes:
  "''glass'' \<notin> set (map tag_material (m_objectMaterials example_loaded_scene))
     \<and> FindMaterial example_loaded_scene ''glass'' example_indeterminate =
         (True, example_indeterminate)
     \<and> SetShaderMaterial example_indeterminate ''glass'' example_loaded_scene =
         Inr (example_loaded_scene\<lparr>uniforms :=
                [setVec3Value ''material.diffuseColor'' (- 7, 0, 12345),
                 setVec3Value ''material.specularColor'' (3, - 1, 0),
                 setFloatValue ''material.shininess'' (- 2)]\<rparr>)"
  by (simp add: SetShaderMaterial_def FindMaterial_example push_def)
    (simp add: example_loaded_scene_def example_material_def example_indeterminate_def)

end
